theory Spec2Isabelle
  imports Main
begin

section \<open>Python values, exceptions and library constants\<close>

text \<open>
  The exceptions the fan platform can raise. \<open>TransportError\<close> stands for whatever
  exception the controller's \<open>send\<close> raises; the other constructors are Python's own.
\<close>

datatype error = KeyError | TypeError | ValueError | IndexError | AttributeError
  | TransportError

text \<open>
  The \<open>commands\<close> entry of the device JSON file, after \<open>json.loads\<close>: a value is either
  an opaque code (a string) or a dictionary with string keys.
\<close>

datatype json = JStr string | JObj "string \<Rightarrow> json option"

abbreviation SPEED_OFF :: string where "SPEED_OFF \<equiv> ''off''"
abbreviation STATE_ON :: string where "STATE_ON \<equiv> ''on''"
abbreviation STATE_OFF :: string where "STATE_OFF \<equiv> ''off''"
abbreviation DIRECTION_REVERSE :: string where "DIRECTION_REVERSE \<equiv> ''reverse''"
abbreviation DIRECTION_FORWARD :: string where "DIRECTION_FORWARD \<equiv> ''forward''"

datatype FanEntityFeature = SET_SPEED | TURN_OFF | TURN_ON | DIRECTION | OSCILLATE

text \<open>\<open>d[k]\<close> on a dictionary: a missing key raises KeyError.\<close>

definition getitem :: "(string \<Rightarrow> 'a option) \<Rightarrow> string \<Rightarrow> error + 'a" where
  "getitem d k = (case d k of None \<Rightarrow> Inl KeyError | Some v \<Rightarrow> Inr v)"

text \<open>
  \<open>v[speed]\<close> on a value of the command table, where \<open>speed\<close> is a string or Python's
  \<open>None\<close>: a dictionary from JSON has string keys only, so \<open>None\<close> is a missing key; a
  string cannot be indexed by a string or by \<open>None\<close>.
\<close>

fun subscript :: "json \<Rightarrow> string option \<Rightarrow> error + json" where
  "subscript (JObj d) (Some k) = getitem d k"
| "subscript (JObj d) None = Inl KeyError"
| "subscript (JStr v) k = Inl TypeError"

text \<open>\<open>x or y\<close> on an optional string: \<open>None\<close> and the empty string are falsy.\<close>

fun py_or :: "string option \<Rightarrow> string \<Rightarrow> string" where
  "py_or None y = y"
| "py_or (Some []) y = y"
| "py_or (Some (c # cs)) y = c # cs"

text \<open>\<open>xs[0]\<close>: raises IndexError on the empty list.\<close>

fun first_item :: "'a list \<Rightarrow> error + 'a" where
  "first_item [] = Inl IndexError"
| "first_item (x # xs) = Inr x"

text \<open>\<open>xs.index(x)\<close> for an element of the list: the position of its first occurrence.\<close>

fun index_of :: "'a list \<Rightarrow> 'a \<Rightarrow> nat" where
  "index_of [] x = 0"
| "index_of (y # ys) x = (if y = x then 0 else Suc (index_of ys x))"

section \<open>The percentage helpers of the host library\<close>

text \<open>
  Modelled from the spec: \<open>ordered_list_item_to_percentage\<close> is imported from
  \<open>homeassistant.util.percentage\<close> and is not under src/. The spec fixes the mapping
  between percentages and speed levels as "partition [0,100] into len(speedList) equal
  buckets and pick the bucket index": the bucket of position \<open>k\<close> (counted from 1) in a
  list of \<open>n\<close> items ends at \<open>(k * 100) // n\<close>, and that end is the percentage of the
  item at position \<open>k\<close>. An item that is not in the list (Python's \<open>None\<close> among them)
  raises ValueError.
\<close>

definition ordered_list_item_to_percentage :: "string list \<Rightarrow> string option \<Rightarrow> error + int" where
  "ordered_list_item_to_percentage ordered_list item =
     (case item of
        None \<Rightarrow> Inl ValueError
      | Some i \<Rightarrow>
          if i \<notin> set ordered_list then Inl ValueError
          else
            let list_len = length ordered_list;
                list_position = index_of ordered_list i + 1
            in Inr ((int list_position * 100) div int list_len))"

text \<open>
  Modelled from the spec: the search of \<open>percentage_to_ordered_list_item\<close>, which is not
  under src/, through the buckets from the lowest: the first item whose bucket end is not
  below the percentage.
\<close>

fun percentage_scan :: "string list \<Rightarrow> nat \<Rightarrow> nat \<Rightarrow> int \<Rightarrow> string option" where
  "percentage_scan [] offset list_len percentage = None"
| "percentage_scan (speed # rest) offset list_len percentage =
     (let list_position = offset + 1;
          upper_bound = (int list_position * 100) div int list_len
      in if percentage \<le> upper_bound then Some speed
         else percentage_scan rest (offset + 1) list_len percentage)"

text \<open>
  Modelled from the spec: \<open>percentage_to_ordered_list_item\<close> is imported from
  \<open>homeassistant.util.percentage\<close> and is not under src/. It picks the bucket of the
  percentage ("pick the bucket index"), the last item when the percentage lies above
  every bucket, and raises ValueError on an empty list.
\<close>

definition percentage_to_ordered_list_item :: "string list \<Rightarrow> int \<Rightarrow> error + string" where
  "percentage_to_ordered_list_item ordered_list percentage =
     (let list_len = length ordered_list in
      if list_len = 0 then Inl ValueError
      else case percentage_scan ordered_list 0 list_len percentage of
             Some speed \<Rightarrow> Inr speed
           | None \<Rightarrow> Inr (last ordered_list))"

section \<open>The device and the fan entity\<close>

text \<open>
  What \<open>SmartIRFan.__init__\<close> reads from the configuration and the device file and never
  changes afterwards. \<open>controller\<close> is the behaviour of \<open>self._controller.send\<close>: given
  the payloads of the earlier calls and the payload of this call, the exception it raises,
  if any.
\<close>

record device =
  speed_list :: "string list"
  commands :: "string \<Rightarrow> json option"
  power_sensor :: "string option"
  controller :: "json list \<Rightarrow> json \<Rightarrow> error option"

text \<open>
  The mutable fields of \<open>SmartIRFan\<close>, and the effects of its methods as logs:
  \<open>sent\<close> holds the payload of every call of \<open>self._controller.send\<close>, \<open>logged\<close> every
  exception given to \<open>_LOGGER.exception\<close>, \<open>written\<close> counts the calls of
  \<open>async_write_ha_state\<close>, and \<open>tracked\<close> holds the entity of every call of
  \<open>async_track_state_change_event\<close>. In \<open>speed\<close>, \<open>direction\<close>, \<open>last_on_speed\<close> and
  \<open>oscillating\<close>, \<open>None\<close> is Python's \<open>None\<close>.
\<close>

record fan =
  speed :: "string option"
  direction :: "string option"
  last_on_speed :: "string option"
  oscillating :: "bool option"
  attr_supported_features :: "FanEntityFeature set"
  on_by_remote :: bool
  sent :: "json list"
  logged :: "error list"
  written :: nat
  tracked :: "string list"

text \<open>A method returns the exception it raised, if any, and the entity as it left it.\<close>

type_synonym outcome = "error option \<times> fan"

definition init :: "device \<Rightarrow> fan" where
  "init dev =
     (let bidirectional =
            (DIRECTION_REVERSE \<in> dom (commands dev) \<and> DIRECTION_FORWARD \<in> dom (commands dev));
          oscillates = (''oscillate'' \<in> dom (commands dev))
      in \<lparr> speed = Some SPEED_OFF,
           direction = (if bidirectional then Some DIRECTION_REVERSE else None),
           last_on_speed = None,
           oscillating = (if oscillates then Some False else None),
           attr_supported_features =
             {SET_SPEED, TURN_OFF, TURN_ON}
               \<union> (if bidirectional then {DIRECTION} else {})
               \<union> (if oscillates then {OSCILLATE} else {}),
           on_by_remote = False,
           sent = [], logged = [], written = 0, tracked = [] \<rparr>)"

definition async_write_ha_state :: "fan \<Rightarrow> fan" where
  "async_write_ha_state s = s\<lparr>written := written s + 1\<rparr>"

definition state :: "fan \<Rightarrow> string" where
  "state s = (if on_by_remote s \<or> speed s \<noteq> Some SPEED_OFF then STATE_ON else SPEED_OFF)"

text \<open>
  The command selection of \<open>send_command\<close> (the \<open>if\<close>/\<open>elif\<close>/\<open>else\<close> over speed and
  oscillation): the payload, or the exception of the failing dictionary access.
\<close>

definition resolve_command :: "device \<Rightarrow> fan \<Rightarrow> error + json" where
  "resolve_command dev s =
     (let speed' = speed s;
          direction' = py_or (direction s) ''default'';
          oscillating' = oscillating s
      in if speed' = Some SPEED_OFF then getitem (commands dev) ''off''
         else if oscillating' = Some True then getitem (commands dev) ''oscillate''
         else (case getitem (commands dev) direction' of
                 Inl e \<Rightarrow> Inl e
               | Inr by_speed \<Rightarrow> subscript by_speed speed'))"

definition send_command :: "device \<Rightarrow> fan \<Rightarrow> outcome" where
  "send_command dev s0 =
     (let s = s0\<lparr>on_by_remote := False\<rparr> in
      case resolve_command dev s of
        Inl e \<Rightarrow> (Some e, s)
      | Inr command \<Rightarrow>
          (case controller dev (sent s) command of
             None \<Rightarrow> (None, s\<lparr>sent := sent s @ [command]\<rparr>)
           | Some e \<Rightarrow> (None, s\<lparr>sent := sent s @ [command], logged := logged s @ [e]\<rparr>)))"

text \<open>
  \<open>await self.send_command()\<close> followed by \<open>self.async_write_ha_state()\<close>: the second
  statement runs only when the first raised nothing.
\<close>

definition send_then_write :: "device \<Rightarrow> fan \<Rightarrow> outcome" where
  "send_then_write dev s =
     (case send_command dev s of
        (Some e, s') \<Rightarrow> (Some e, s')
      | (None, s') \<Rightarrow> (None, async_write_ha_state s'))"

definition async_set_percentage :: "device \<Rightarrow> int \<Rightarrow> fan \<Rightarrow> outcome" where
  "async_set_percentage dev percentage s =
     (case (if percentage = 0 then Inr SPEED_OFF
            else percentage_to_ordered_list_item (speed_list dev) percentage) of
        Inl e \<Rightarrow> (Some e, s)
      | Inr sp \<Rightarrow>
          let s1 = s\<lparr>speed := Some sp\<rparr>;
              s2 = (if speed s1 \<noteq> Some SPEED_OFF then s1\<lparr>last_on_speed := speed s1\<rparr> else s1)
          in send_then_write dev s2)"

definition async_oscillate :: "device \<Rightarrow> bool \<Rightarrow> fan \<Rightarrow> outcome" where
  "async_oscillate dev osc s = send_then_write dev (s\<lparr>oscillating := Some osc\<rparr>)"

definition async_set_direction :: "device \<Rightarrow> string \<Rightarrow> fan \<Rightarrow> outcome" where
  "async_set_direction dev d s =
     (let s1 = s\<lparr>direction := Some d\<rparr> in
      if speed s1 \<noteq> Some SPEED_OFF then send_then_write dev s1
      else (None, async_write_ha_state s1))"

definition async_turn_on :: "device \<Rightarrow> int option \<Rightarrow> fan \<Rightarrow> outcome" where
  "async_turn_on dev percentage s =
     (case percentage of
        Some p \<Rightarrow> async_set_percentage dev p s
      | None \<Rightarrow>
          (case (case last_on_speed s of
                   Some (c # cs) \<Rightarrow> Inr (c # cs)
                 | _ \<Rightarrow> first_item (speed_list dev)) of
             Inl e \<Rightarrow> (Some e, s)
           | Inr item \<Rightarrow>
               (case ordered_list_item_to_percentage (speed_list dev) (Some item) of
                  Inl e \<Rightarrow> (Some e, s)
                | Inr p \<Rightarrow> async_set_percentage dev p s)))"

definition async_turn_off :: "device \<Rightarrow> fan \<Rightarrow> outcome" where
  "async_turn_off dev s = async_set_percentage dev 0 s"

definition percentage :: "device \<Rightarrow> fan \<Rightarrow> error + int" where
  "percentage dev s =
     (if speed s = Some SPEED_OFF then Inr 0
      else ordered_list_item_to_percentage (speed_list dev) (speed s))"

section \<open>The power sensor\<close>

text \<open>
  The data of a state-change event: the sensor's entity and the \<open>state\<close> strings of its
  old and new state objects; \<open>None\<close> is a state object that is \<open>None\<close>.
\<close>

record event =
  entity_id :: string
  old_state :: "string option"
  new_state :: "string option"

definition async_power_sensor_changed :: "event \<Rightarrow> fan \<Rightarrow> outcome" where
  "async_power_sensor_changed ev s =
     (case new_state ev of
        None \<Rightarrow> (None, s)
      | Some new \<Rightarrow>
          (case old_state ev of
             None \<Rightarrow> (Some AttributeError, s)
           | Some old \<Rightarrow>
               if new = old then (None, s)
               else
                 let s1 = (if new = STATE_ON \<and> speed s = Some SPEED_OFF
                           then async_write_ha_state (s\<lparr>on_by_remote := True, speed := None\<rparr>)
                           else s);
                     s2 = (if new = STATE_OFF
                           then
                             let s' = s1\<lparr>on_by_remote := False\<rparr>;
                                 s'' = (if speed s' \<noteq> Some SPEED_OFF
                                        then s'\<lparr>speed := Some SPEED_OFF\<rparr> else s')
                             in async_write_ha_state s''
                           else s1)
                 in (None, s2)))"

text \<open>
  \<open>async_added_to_hass\<close>: \<open>last_state\<close> is the attribute dictionary of the restored state,
  or \<open>None\<close> when the host has none; an attribute's value is a string or \<open>None\<close>.
\<close>

definition async_added_to_hass ::
    "device \<Rightarrow> (string \<Rightarrow> string option option) option \<Rightarrow> fan \<Rightarrow> fan" where
  "async_added_to_hass dev last_state s =
     (case last_state of
        None \<Rightarrow> s
      | Some attributes \<Rightarrow>
          let s1 = (case attributes ''speed'' of
                      Some v \<Rightarrow> s\<lparr>speed := v\<rparr> | None \<Rightarrow> s);
              s2 = (case attributes ''direction'' of
                      Some v \<Rightarrow>
                        if DIRECTION \<in> attr_supported_features s1
                        then s1\<lparr>direction := v\<rparr> else s1
                    | None \<Rightarrow> s1);
              s3 = (case attributes ''last_on_speed'' of
                      Some v \<Rightarrow> s2\<lparr>last_on_speed := v\<rparr> | None \<Rightarrow> s2)
          in (case power_sensor dev of
                Some (c # cs) \<Rightarrow> s3\<lparr>tracked := tracked s3 @ [c # cs]\<rparr>
              | _ \<Rightarrow> s3))"

section \<open>Sequences of operations\<close>

datatype operation =
    SetPercentage int
  | Oscillate bool
  | SetDirection string
  | TurnOn "int option"
  | TurnOff
  | PowerSensorChanged event

fun perform :: "device \<Rightarrow> operation \<Rightarrow> fan \<Rightarrow> outcome" where
  "perform dev (SetPercentage p) s = async_set_percentage dev p s"
| "perform dev (Oscillate b) s = async_oscillate dev b s"
| "perform dev (SetDirection d) s = async_set_direction dev d s"
| "perform dev (TurnOn p) s = async_turn_on dev p s"
| "perform dev TurnOff s = async_turn_off dev s"
| "perform dev (PowerSensorChanged ev) s = async_power_sensor_changed ev s"

text \<open>
  The entity after a sequence of operations; an operation that raised leaves the entity
  as it was when the exception left the method, and the next operation starts there.
\<close>

fun run :: "device \<Rightarrow> operation list \<Rightarrow> fan \<Rightarrow> fan" where
  "run dev [] s = s"
| "run dev (x # xs) s = run dev xs (snd (perform dev x s))"

section \<open>A concrete device\<close>

text \<open>
  A ceiling fan with three speeds, two directions and an oscillate code, on a controller
  that never fails; \<open>deaf_controller\<close> is the same device on a controller whose every
  send raises.
\<close>

definition by_speed_forward :: "string \<Rightarrow> json option" where
  "by_speed_forward =
     [''low'' \<mapsto> JStr ''F1'', ''medium'' \<mapsto> JStr ''F2'', ''high'' \<mapsto> JStr ''F3'']"

definition by_speed_reverse :: "string \<Rightarrow> json option" where
  "by_speed_reverse =
     [''low'' \<mapsto> JStr ''R1'', ''medium'' \<mapsto> JStr ''R2'', ''high'' \<mapsto> JStr ''R3'']"

definition ceiling_fan :: device where
  "ceiling_fan =
     \<lparr> speed_list = [''low'', ''medium'', ''high''],
       commands = [''off'' \<mapsto> JStr ''OFF'', ''oscillate'' \<mapsto> JStr ''OSC'',
                   ''forward'' \<mapsto> JObj by_speed_forward,
                   ''reverse'' \<mapsto> JObj by_speed_reverse],
       power_sensor = Some ''binary_sensor.fan_power'',
       controller = (\<lambda>earlier payload. None) \<rparr>"

definition deaf_controller :: device where
  "deaf_controller = ceiling_fan\<lparr>controller := (\<lambda>earlier payload. Some TransportError)\<rparr>"

definition sensor_on :: event where
  "sensor_on = \<lparr> entity_id = ''binary_sensor.fan_power'',
                 old_state = Some STATE_OFF, new_state = Some STATE_ON \<rparr>"

definition sensor_off :: event where
  "sensor_off = \<lparr> entity_id = ''binary_sensor.fan_power'',
                  old_state = Some STATE_ON, new_state = Some STATE_OFF \<rparr>"

definition sensor_first :: event where
  "sensor_first = \<lparr> entity_id = ''binary_sensor.fan_power'',
                    old_state = None, new_state = Some STATE_ON \<rparr>"

text \<open>The ceiling fan after its power sensor turned on while the entity was off.\<close>

definition remote_on :: fan where
  "remote_on = snd (async_power_sensor_changed sensor_on (init ceiling_fan))"

text \<open>
  The same device with 101 speed levels, named by one to 101 plus signs, lowest first.
\<close>

definition fine_grained :: device where
  "fine_grained =
     ceiling_fan\<lparr>speed_list := map (\<lambda>k. replicate (Suc k) CHR ''+'') [0..<101]\<rparr>"

section \<open>What a dispatch leaves unchanged\<close>

lemma resolve_command_on_by_remote [simp]:
  "resolve_command dev (s\<lparr>on_by_remote := b\<rparr>) = resolve_command dev s"
  by (simp add: resolve_command_def)

lemma sent_send_command:
  "resolve_command dev s = Inr c \<Longrightarrow> sent (snd (send_command dev s)) = sent s @ [c]"
  by (simp add: send_command_def Let_def split: option.splits)

lemma fst_send_command:
  "resolve_command dev s = Inr c \<Longrightarrow> fst (send_command dev s) = None"
  by (simp add: send_command_def Let_def split: option.splits)

lemma speed_send_command [simp]: "speed (snd (send_command dev s)) = speed s"
  by (simp add: send_command_def Let_def split: sum.splits option.splits)

lemma direction_send_command [simp]: "direction (snd (send_command dev s)) = direction s"
  by (simp add: send_command_def Let_def split: sum.splits option.splits)

lemma last_on_speed_send_command [simp]:
  "last_on_speed (snd (send_command dev s)) = last_on_speed s"
  by (simp add: send_command_def Let_def split: sum.splits option.splits)

lemma oscillating_send_command [simp]:
  "oscillating (snd (send_command dev s)) = oscillating s"
  by (simp add: send_command_def Let_def split: sum.splits option.splits)

lemma on_by_remote_send_command [simp]: "\<not> on_by_remote (snd (send_command dev s))"
  by (simp add: send_command_def Let_def split: sum.splits option.splits)

lemma send_then_write_fields [simp]:
  "speed (snd (send_then_write dev s)) = speed s"
  "direction (snd (send_then_write dev s)) = direction s"
  "last_on_speed (snd (send_then_write dev s)) = last_on_speed s"
  "oscillating (snd (send_then_write dev s)) = oscillating s"
  "\<not> on_by_remote (snd (send_then_write dev s))"
  "sent (snd (send_then_write dev s)) = sent (snd (send_command dev s))"
  using speed_send_command [of dev s] direction_send_command [of dev s]
    on_by_remote_send_command [of dev s] last_on_speed_send_command [of dev s]
    oscillating_send_command [of dev s]
  by (cases "send_command dev s"; cases "fst (send_command dev s)";
      simp add: send_then_write_def async_write_ha_state_def)+

lemma fst_send_then_write [simp]:
  "fst (send_then_write dev s) = fst (send_command dev s)"
  by (cases "send_command dev s"; cases "fst (send_command dev s)";
      simp add: send_then_write_def)

section \<open>Command selection\<close>

text \<open>
  Claim C1. A dispatch selects its payload with the precedence off, then oscillate, then
  direction and speed: when the speed is off, the payload passed to the controller is the
  \<open>off\<close> entry of the command table, whatever the oscillation flag and the direction
  are; otherwise, when the oscillation flag is true, it is the \<open>oscillate\<close> entry,
  whatever the speed and the direction are; otherwise it is the entry of the speed in the
  table of the direction, with \<open>default\<close> for an unset direction.
\<close>

theorem send_command_precedence:
  "(speed s = Some SPEED_OFF \<and> commands dev ''off'' = Some c \<longrightarrow>
      sent (snd (send_command dev s)) = sent s @ [c])
   \<and> (speed s \<noteq> Some SPEED_OFF \<and> oscillating s = Some True
        \<and> commands dev ''oscillate'' = Some c \<longrightarrow>
      sent (snd (send_command dev s)) = sent s @ [c])
   \<and> (speed s = Some level \<and> level \<noteq> SPEED_OFF \<and> oscillating s \<noteq> Some True
        \<and> commands dev (py_or (direction s) ''default'') = Some (JObj by_speed)
        \<and> by_speed level = Some c \<longrightarrow>
      sent (snd (send_command dev s)) = sent s @ [c])"
proof (intro conjI impI)
  assume "speed s = Some SPEED_OFF \<and> commands dev ''off'' = Some c"
  then have "resolve_command dev s = Inr c"
    by (simp add: resolve_command_def getitem_def)
  then show "sent (snd (send_command dev s)) = sent s @ [c]"
    by (rule sent_send_command)
next
  assume "speed s \<noteq> Some SPEED_OFF \<and> oscillating s = Some True
        \<and> commands dev ''oscillate'' = Some c"
  then have "resolve_command dev s = Inr c"
    by (simp add: resolve_command_def getitem_def)
  then show "sent (snd (send_command dev s)) = sent s @ [c]"
    by (rule sent_send_command)
next
  assume "speed s = Some level \<and> level \<noteq> SPEED_OFF \<and> oscillating s \<noteq> Some True
        \<and> commands dev (py_or (direction s) ''default'') = Some (JObj by_speed)
        \<and> by_speed level = Some c"
  then have "resolve_command dev s = Inr c"
    by (simp add: resolve_command_def getitem_def)
  then show "sent (snd (send_command dev s)) = sent s @ [c]"
    by (rule sent_send_command)
qed

theorem send_command_precedence_witness:
  "sent (snd (send_command ceiling_fan
      ((init ceiling_fan)\<lparr>oscillating := Some True, direction := Some ''forward''\<rparr>)))
     = [JStr ''OFF'']
   \<and> sent (snd (send_command ceiling_fan
      ((init ceiling_fan)\<lparr>speed := Some ''high'', oscillating := Some True\<rparr>)))
     = [JStr ''OSC'']
   \<and> sent (snd (send_command ceiling_fan
      ((init ceiling_fan)\<lparr>speed := Some ''high'', direction := Some ''forward''\<rparr>)))
     = [JStr ''F3'']"
  using send_command_precedence
          [of "(init ceiling_fan)\<lparr>oscillating := Some True, direction := Some ''forward''\<rparr>"
              ceiling_fan "JStr ''OFF''"]
        send_command_precedence
          [of "(init ceiling_fan)\<lparr>speed := Some ''high'', oscillating := Some True\<rparr>"
              ceiling_fan "JStr ''OSC''"]
        send_command_precedence
          [of "(init ceiling_fan)\<lparr>speed := Some ''high'', direction := Some ''forward''\<rparr>"
              ceiling_fan "JStr ''F3''" "''high''" by_speed_forward]
  by (simp add: ceiling_fan_def init_def by_speed_forward_def)

section \<open>Sensor reconciliation\<close>

text \<open>
  Claim C2. From any state whose speed is off, a sensor notification that changes to ON
  sets \<open>on_by_remote\<close>, leaves the speed without a known level (\<open>None\<close>), makes the
  reported state ON and sends nothing; a following notification that changes to OFF
  clears \<open>on_by_remote\<close> and forces the speed to off, again sending nothing.
\<close>

theorem sensor_reconciliation:
  assumes "speed s = Some SPEED_OFF"
    and "old_state ev1 = Some before1" and "new_state ev1 = Some STATE_ON"
    and "before1 \<noteq> STATE_ON"
    and "old_state ev2 = Some before2" and "new_state ev2 = Some STATE_OFF"
    and "before2 \<noteq> STATE_OFF"
    and "s1 = snd (async_power_sensor_changed ev1 s)"
    and "s2 = snd (async_power_sensor_changed ev2 s1)"
  shows "fst (async_power_sensor_changed ev1 s) = None
       \<and> on_by_remote s1 \<and> speed s1 = None \<and> state s1 = STATE_ON \<and> sent s1 = sent s
       \<and> fst (async_power_sensor_changed ev2 s1) = None
       \<and> \<not> on_by_remote s2 \<and> speed s2 = Some SPEED_OFF \<and> state s2 = SPEED_OFF
       \<and> sent s2 = sent s"
  using assms
  by (simp add: async_power_sensor_changed_def async_write_ha_state_def state_def Let_def)

theorem sensor_reconciliation_witness:
  "on_by_remote (snd (async_power_sensor_changed sensor_on (init ceiling_fan)))
   \<and> speed (snd (async_power_sensor_changed sensor_on (init ceiling_fan))) = None
   \<and> sent (snd (async_power_sensor_changed sensor_on (init ceiling_fan))) = []
   \<and> speed (snd (async_power_sensor_changed sensor_off
        (snd (async_power_sensor_changed sensor_on (init ceiling_fan))))) = Some SPEED_OFF
   \<and> \<not> on_by_remote (snd (async_power_sensor_changed sensor_off
        (snd (async_power_sensor_changed sensor_on (init ceiling_fan)))))"
  using sensor_reconciliation [of "init ceiling_fan" sensor_on STATE_OFF sensor_off STATE_ON
          "snd (async_power_sensor_changed sensor_on (init ceiling_fan))"
          "snd (async_power_sensor_changed sensor_off
             (snd (async_power_sensor_changed sensor_on (init ceiling_fan))))"]
  by (simp add: init_def sensor_on_def sensor_off_def Let_def)

section \<open>Turning off\<close>

text \<open>
  Claim C3. \<open>async_set_percentage\<close> with percentage 0 sets the speed to off and passes
  the \<open>off\<close> entry of the command table to the controller, whatever the oscillation flag
  and the direction are; and \<open>async_turn_off\<close> is \<open>async_set_percentage\<close> with
  percentage 0: the same entity and the same dispatch.
\<close>

theorem set_percentage_zero_is_off:
  "speed (snd (async_set_percentage dev 0 s)) = Some SPEED_OFF
   \<and> (commands dev ''off'' = Some c \<longrightarrow>
        fst (async_set_percentage dev 0 s) = None
        \<and> sent (snd (async_set_percentage dev 0 s)) = sent s @ [c])
   \<and> async_turn_off dev s = async_set_percentage dev 0 s"
proof (intro conjI impI)
  show "speed (snd (async_set_percentage dev 0 s)) = Some SPEED_OFF"
    by (simp add: async_set_percentage_def)
  show "async_turn_off dev s = async_set_percentage dev 0 s"
    by (simp add: async_turn_off_def)
next
  assume off: "commands dev ''off'' = Some c"
  let ?s = "s\<lparr>speed := Some SPEED_OFF\<rparr>"
  have r: "resolve_command dev ?s = Inr c"
    using off by (simp add: resolve_command_def getitem_def)
  have "fst (send_command dev ?s) = None"
    using r by (rule fst_send_command)
  then show "fst (async_set_percentage dev 0 s) = None"
    by (simp add: async_set_percentage_def)
  show "sent (snd (async_set_percentage dev 0 s)) = sent s @ [c]"
    using sent_send_command [OF r] by (simp add: async_set_percentage_def)
qed

theorem set_percentage_zero_is_off_witness:
  "speed (snd (async_set_percentage ceiling_fan 0
      ((init ceiling_fan)\<lparr>speed := Some ''high'', oscillating := Some True\<rparr>)))
     = Some SPEED_OFF
   \<and> sent (snd (async_set_percentage ceiling_fan 0
      ((init ceiling_fan)\<lparr>speed := Some ''high'', oscillating := Some True\<rparr>)))
     = [JStr ''OFF'']
   \<and> sent (snd (async_turn_off ceiling_fan
      ((init ceiling_fan)\<lparr>speed := Some ''high'', oscillating := Some True\<rparr>)))
     = [JStr ''OFF'']"
  using set_percentage_zero_is_off
          [of ceiling_fan "(init ceiling_fan)\<lparr>speed := Some ''high'', oscillating := Some True\<rparr>"
              "JStr ''OFF''"]
  by (simp add: ceiling_fan_def init_def)

section \<open>Changing the direction\<close>

lemma py_or_nonempty: "d \<noteq> [] \<Longrightarrow> py_or (Some d) y = d"
  by (cases d) simp_all

text \<open>
  Claim C4, as stated, fails at a speed that is neither off nor a known level: after the
  power sensor turned the ceiling fan on, the speed is \<open>None\<close>, the reported state is ON
  and the fan is not oscillating, yet \<open>async_set_direction\<close> finds no payload, raises
  KeyError and sends nothing.
\<close>

theorem set_direction_dispatch_counterexample:
  "speed remote_on = None
   \<and> speed remote_on \<noteq> Some SPEED_OFF
   \<and> state remote_on = STATE_ON
   \<and> oscillating remote_on = Some False
   \<and> direction (snd (async_set_direction ceiling_fan ''forward'' remote_on)) = Some ''forward''
   \<and> fst (async_set_direction ceiling_fan ''forward'' remote_on) = Some KeyError
   \<and> sent (snd (async_set_direction ceiling_fan ''forward'' remote_on)) = sent remote_on"
  by (simp add: remote_on_def ceiling_fan_def init_def Let_def sensor_on_def state_def
        async_power_sensor_changed_def async_write_ha_state_def resolve_command_def
        getitem_def by_speed_forward_def async_set_direction_def send_then_write_def
        send_command_def)

text \<open>
  Claim C4, amended. \<open>async_set_direction\<close> always records the direction. With the speed
  off it sends nothing. With a speed that is not off it calls the controller exactly
  when the command selection finds a payload, and then exactly once, with that payload;
  when the selection finds none (as at the speed \<open>None\<close> left by the power sensor), it
  sends nothing and raises the exception of the failing table access. In a state that is
  not oscillating, at a known level that has an entry in the table of the new direction,
  the payload sent is that entry.
\<close>

theorem set_direction_dispatch:
  "direction (snd (async_set_direction dev d s)) = Some d
   \<and> (speed s = Some SPEED_OFF \<longrightarrow>
        fst (async_set_direction dev d s) = None
        \<and> sent (snd (async_set_direction dev d s)) = sent s)
   \<and> (speed s \<noteq> Some SPEED_OFF \<and> resolve_command dev (s\<lparr>direction := Some d\<rparr>) = Inr c \<longrightarrow>
        fst (async_set_direction dev d s) = None
        \<and> sent (snd (async_set_direction dev d s)) = sent s @ [c])
   \<and> (speed s \<noteq> Some SPEED_OFF \<and> resolve_command dev (s\<lparr>direction := Some d\<rparr>) = Inl e \<longrightarrow>
        fst (async_set_direction dev d s) = Some e
        \<and> sent (snd (async_set_direction dev d s)) = sent s)
   \<and> (speed s = Some level \<and> level \<noteq> SPEED_OFF \<and> oscillating s \<noteq> Some True \<and> d \<noteq> []
        \<and> commands dev d = Some (JObj by_speed) \<and> by_speed level = Some c \<longrightarrow>
        fst (async_set_direction dev d s) = None
        \<and> sent (snd (async_set_direction dev d s)) = sent s @ [c])"
proof (intro conjI impI)
  show "direction (snd (async_set_direction dev d s)) = Some d"
    by (simp add: async_set_direction_def async_write_ha_state_def Let_def)
next
  assume "speed s = Some SPEED_OFF"
  then show "fst (async_set_direction dev d s) = None"
    and "sent (snd (async_set_direction dev d s)) = sent s"
    by (simp_all add: async_set_direction_def async_write_ha_state_def)
next
  assume a: "speed s \<noteq> Some SPEED_OFF \<and> resolve_command dev (s\<lparr>direction := Some d\<rparr>) = Inr c"
  then show "fst (async_set_direction dev d s) = None"
    by (simp add: async_set_direction_def fst_send_command)
  from a show "sent (snd (async_set_direction dev d s)) = sent s @ [c]"
    by (simp add: async_set_direction_def sent_send_command)
next
  assume a: "speed s \<noteq> Some SPEED_OFF \<and> resolve_command dev (s\<lparr>direction := Some d\<rparr>) = Inl e"
  then have "send_command dev (s\<lparr>direction := Some d\<rparr>)
      = (Some e, s\<lparr>direction := Some d, on_by_remote := False\<rparr>)"
    by (simp add: send_command_def)
  with a show "fst (async_set_direction dev d s) = Some e"
    and "sent (snd (async_set_direction dev d s)) = sent s"
    by (simp_all add: async_set_direction_def)
next
  assume a: "speed s = Some level \<and> level \<noteq> SPEED_OFF \<and> oscillating s \<noteq> Some True \<and> d \<noteq> []
        \<and> commands dev d = Some (JObj by_speed) \<and> by_speed level = Some c"
  then have r: "resolve_command dev (s\<lparr>direction := Some d\<rparr>) = Inr c"
    by (simp add: resolve_command_def getitem_def py_or_nonempty)
  from a r show "fst (async_set_direction dev d s) = None"
    by (simp add: async_set_direction_def fst_send_command)
  from a r show "sent (snd (async_set_direction dev d s)) = sent s @ [c]"
    by (simp add: async_set_direction_def sent_send_command)
qed

theorem set_direction_dispatch_witness:
  "sent (snd (async_set_direction ceiling_fan ''forward'' (init ceiling_fan))) = []
   \<and> direction (snd (async_set_direction ceiling_fan ''forward'' (init ceiling_fan)))
       = Some ''forward''
   \<and> sent (snd (async_set_direction ceiling_fan ''forward''
       ((init ceiling_fan)\<lparr>speed := Some ''low''\<rparr>))) = [JStr ''F1'']
   \<and> fst (async_set_direction ceiling_fan ''forward'' remote_on) = Some KeyError
   \<and> sent (snd (async_set_direction ceiling_fan ''forward'' remote_on)) = []"
  using set_direction_dispatch [where dev = ceiling_fan and d = "''forward''"
          and s = "init ceiling_fan"]
    set_direction_dispatch [where dev = ceiling_fan and d = "''forward''"
      and s = "(init ceiling_fan)\<lparr>speed := Some ''low''\<rparr>"
      and c = "JStr ''F1''" and level = "''low''" and by_speed = by_speed_forward]
    set_direction_dispatch [where dev = ceiling_fan and d = "''forward''"
      and s = remote_on and e = KeyError]
  by (simp add: remote_on_def ceiling_fan_def init_def Let_def sensor_on_def
        async_power_sensor_changed_def async_write_ha_state_def
        by_speed_forward_def resolve_command_def getitem_def)

section \<open>Turning on\<close>

text \<open>
  Claim C5. \<open>async_turn_on\<close> without a percentage is \<open>async_set_percentage\<close> at the
  percentage of \<open>last_on_speed\<close> when that is known, and otherwise at the percentage of
  the first (lowest) level of the speed list.
\<close>

theorem turn_on_resume_speed:
  "(last_on_speed s = Some l \<and> l \<noteq> []
      \<and> ordered_list_item_to_percentage (speed_list dev) (Some l) = Inr p \<longrightarrow>
    async_turn_on dev None s = async_set_percentage dev p s)
   \<and> (last_on_speed s = None \<and> speed_list dev = lowest # rest
      \<and> ordered_list_item_to_percentage (speed_list dev) (Some lowest) = Inr p \<longrightarrow>
    async_turn_on dev None s = async_set_percentage dev p s)"
proof (intro conjI impI)
  assume "last_on_speed s = Some l \<and> l \<noteq> []
      \<and> ordered_list_item_to_percentage (speed_list dev) (Some l) = Inr p"
  then show "async_turn_on dev None s = async_set_percentage dev p s"
    by (cases l) (simp_all add: async_turn_on_def)
next
  assume a: "last_on_speed s = None \<and> speed_list dev = lowest # rest
      \<and> ordered_list_item_to_percentage (speed_list dev) (Some lowest) = Inr p"
  then have unknown: "last_on_speed s = None"
    and levels: "speed_list dev = lowest # rest"
    and pct: "ordered_list_item_to_percentage (lowest # rest) (Some lowest) = Inr p"
    by auto
  show "async_turn_on dev None s = async_set_percentage dev p s"
    by (simp add: async_turn_on_def unknown levels pct)
qed

theorem turn_on_resume_speed_witness:
  "async_turn_on ceiling_fan None ((init ceiling_fan)\<lparr>last_on_speed := Some ''high''\<rparr>)
     = async_set_percentage ceiling_fan 100 ((init ceiling_fan)\<lparr>last_on_speed := Some ''high''\<rparr>)
   \<and> async_turn_on ceiling_fan None (init ceiling_fan)
     = async_set_percentage ceiling_fan 33 (init ceiling_fan)"
  using turn_on_resume_speed [where s = "(init ceiling_fan)\<lparr>last_on_speed := Some ''high''\<rparr>"
          and l = "''high''" and dev = ceiling_fan and p = 100]
        turn_on_resume_speed [where s = "init ceiling_fan" and dev = ceiling_fan
          and lowest = "''low''" and rest = "[''medium'', ''high'']" and p = 33]
  by (simp add: ceiling_fan_def init_def ordered_list_item_to_percentage_def)

section \<open>The percentage round trip\<close>

lemma bucket_end_strict:
  assumes "0 < n" and "n \<le> 100" and "a < b"
  shows "(int a * 100) div int n < (int b * 100) div int n"
proof -
  have "int a * 100 + int n \<le> int b * 100"
    using assms by linarith
  then have "(int a * 100 + int n) div int n \<le> (int b * 100) div int n"
    using assms(1) by (intro zdiv_mono1) simp_all
  moreover have "(int a * 100 + int n) div int n = (int a * 100) div int n + 1"
    using assms(1) div_add_self2 [of "int n" "int a * 100"] by simp
  ultimately show ?thesis by linarith
qed

lemma percentage_scan_finds:
  assumes "0 < n" and "n \<le> 100"
  shows "L \<in> set ys \<Longrightarrow>
    percentage_scan ys offset n ((int (offset + index_of ys L + 1) * 100) div int n) = Some L"
proof (induction ys arbitrary: offset)
  case Nil
  then show ?case by simp
next
  case (Cons y ys)
  show ?case
  proof (cases "y = L")
    case True
    then show ?thesis by (simp add: Let_def)
  next
    case False
    with Cons.prems have mem: "L \<in> set ys" by simp
    have "(int (offset + 1) * 100) div int n
        < (int (offset + index_of (y # ys) L + 1) * 100) div int n"
      using False by (intro bucket_end_strict assms) simp
    then have "\<not> (int (offset + index_of (y # ys) L + 1) * 100) div int n
        \<le> (int (offset + 1) * 100) div int n"
      by linarith
    moreover have "offset + index_of (y # ys) L + 1 = (offset + 1) + index_of ys L + 1"
      using False by simp
    ultimately show ?thesis
      using Cons.IH [OF mem, of "offset + 1"] by (simp add: Let_def)
  qed
qed

lemma percentage_round_trip:
  assumes "L \<in> set xs" and "length xs \<le> 100"
    and "ordered_list_item_to_percentage xs (Some L) = Inr p"
  shows "percentage_to_ordered_list_item xs p = Inr L" and "0 < p"
proof -
  have n: "0 < length xs" using assms(1) by (cases xs) simp_all
  have p: "p = (int (0 + index_of xs L + 1) * 100) div int (length xs)"
    using assms(1,3) by (simp add: ordered_list_item_to_percentage_def)
  show "percentage_to_ordered_list_item xs p = Inr L"
    using percentage_scan_finds [OF n assms(2) assms(1), of 0] n
    unfolding p by (simp add: percentage_to_ordered_list_item_def)
  have "(int 0 * 100) div int (length xs) < (int (index_of xs L + 1) * 100) div int (length xs)"
    by (intro bucket_end_strict n assms(2)) simp
  then show "0 < p" unfolding p by simp
qed

lemma fine_grained_speeds:
  "speed_list fine_grained = ''+'' # map (\<lambda>k. replicate (Suc k) CHR ''+'') [1..<101]"
  by (simp add: fine_grained_def upt_conv_Cons)

text \<open>
  Claim C6, as stated, fails on a speed list of more than 100 levels: the percentage of
  the lowest of 101 levels is \<open>100 // 101 = 0\<close>, and \<open>async_set_percentage\<close> with 0
  turns the fan off instead of selecting the level.
\<close>

theorem set_percentage_round_trip_counterexample:
  "''+'' \<in> set (speed_list fine_grained)
   \<and> ordered_list_item_to_percentage (speed_list fine_grained) (Some ''+'') = Inr 0
   \<and> speed (snd (async_set_percentage fine_grained 0 (init fine_grained))) = Some SPEED_OFF
   \<and> speed (snd (async_set_percentage fine_grained 0 (init fine_grained))) \<noteq> Some ''+''
   \<and> last_on_speed (snd (async_set_percentage fine_grained 0 (init fine_grained))) = None"
  by (simp add: fine_grained_speeds ordered_list_item_to_percentage_def
        async_set_percentage_def init_def Let_def)

text \<open>
  Claim C6, amended. For a speed list of at most 100 levels and every level \<open>L\<close> of it
  (a level is not named \<open>off\<close>), \<open>async_set_percentage\<close> at the percentage of \<open>L\<close> sets
  the speed to \<open>L\<close> and \<open>last_on_speed\<close> to \<open>L\<close>, and in a state that is not oscillating
  it passes the entry of \<open>L\<close> in the table of the direction (\<open>default\<close> for an unset
  direction) to the controller.
\<close>

theorem set_percentage_round_trip:
  assumes "L \<in> set (speed_list dev)" and "L \<noteq> SPEED_OFF"
    and "length (speed_list dev) \<le> 100"
    and "ordered_list_item_to_percentage (speed_list dev) (Some L) = Inr p"
  shows "speed (snd (async_set_percentage dev p s)) = Some L
       \<and> last_on_speed (snd (async_set_percentage dev p s)) = Some L
       \<and> (oscillating s \<noteq> Some True
            \<and> commands dev (py_or (direction s) ''default'') = Some (JObj by_speed)
            \<and> by_speed L = Some c \<longrightarrow>
          fst (async_set_percentage dev p s) = None
          \<and> sent (snd (async_set_percentage dev p s)) = sent s @ [c])"
proof -
  let ?s = "s\<lparr>speed := Some L, last_on_speed := Some L\<rparr>"
  have rt: "percentage_to_ordered_list_item (speed_list dev) p = Inr L" and "p \<noteq> 0"
    using percentage_round_trip [OF assms(1,3,4)] by simp_all
  then have run: "async_set_percentage dev p s = send_then_write dev ?s"
    using assms(2) by (simp add: async_set_percentage_def)
  have fields: "speed (snd (async_set_percentage dev p s)) = Some L"
    "last_on_speed (snd (async_set_percentage dev p s)) = Some L"
    unfolding run by simp_all
  have payload: "fst (async_set_percentage dev p s) = None
      \<and> sent (snd (async_set_percentage dev p s)) = sent s @ [c]"
    if "oscillating s \<noteq> Some True
        \<and> commands dev (py_or (direction s) ''default'') = Some (JObj by_speed)
        \<and> by_speed L = Some c"
  proof -
    have "resolve_command dev ?s = Inr c"
      using that assms(2) by (simp add: resolve_command_def getitem_def)
    then show ?thesis
      unfolding run using fst_send_command sent_send_command by fastforce
  qed
  from fields payload show ?thesis by blast
qed

theorem set_percentage_round_trip_witness:
  "ordered_list_item_to_percentage (speed_list ceiling_fan) (Some ''medium'') = Inr 66
   \<and> speed (snd (async_set_percentage ceiling_fan 66 (init ceiling_fan))) = Some ''medium''
   \<and> last_on_speed (snd (async_set_percentage ceiling_fan 66 (init ceiling_fan)))
       = Some ''medium''
   \<and> sent (snd (async_set_percentage ceiling_fan 66 (init ceiling_fan))) = [JStr ''R2'']"
  using set_percentage_round_trip [of "''medium''" ceiling_fan 66 "init ceiling_fan"
          by_speed_reverse "JStr ''R2''"]
  by (simp add: ceiling_fan_def init_def by_speed_reverse_def
        ordered_list_item_to_percentage_def)

section \<open>Failures of a dispatch\<close>

lemma send_command_unresolved:
  "resolve_command dev s = Inl e \<Longrightarrow> send_command dev s = (Some e, s\<lparr>on_by_remote := False\<rparr>)"
  by (simp add: send_command_def)

lemma send_command_transport_failure:
  "resolve_command dev s = Inr c \<Longrightarrow> controller dev (sent s) c = Some e \<Longrightarrow>
     send_command dev s
       = (None, s\<lparr>on_by_remote := False, sent := sent s @ [c], logged := logged s @ [e]\<rparr>)"
  by (simp add: send_command_def)

lemma speed_async_set_percentage:
  "p \<noteq> 0 \<Longrightarrow> percentage_to_ordered_list_item (speed_list dev) p = Inr level \<Longrightarrow>
     speed (snd (async_set_percentage dev p s)) = Some level"
  by (simp add: async_set_percentage_def Let_def)

text \<open>
  Claim C7, as stated, fails where it says that a failed command selection is logged:
  after the power sensor turned the ceiling fan on, the speed is \<open>None\<close>, setting the
  direction finds no payload, the KeyError of the dictionary access reaches the caller,
  and nothing is logged.
\<close>

theorem dispatch_failure_semantics_counterexample:
  "resolve_command ceiling_fan (remote_on\<lparr>direction := Some ''forward''\<rparr>) = Inl KeyError
   \<and> fst (async_set_direction ceiling_fan ''forward'' remote_on) = Some KeyError
   \<and> logged (snd (async_set_direction ceiling_fan ''forward'' remote_on)) = logged remote_on
   \<and> logged (snd (async_set_direction ceiling_fan ''forward'' remote_on)) = []"
  by (simp add: remote_on_def ceiling_fan_def init_def Let_def sensor_on_def
        async_power_sensor_changed_def async_write_ha_state_def resolve_command_def
        getitem_def by_speed_forward_def async_set_direction_def send_then_write_def
        send_command_def)

text \<open>
  Claim C7, amended. When the command selection finds no payload, \<open>send_command\<close> does
  not call the controller and logs nothing, and the exception of the failing access
  (KeyError or TypeError) is raised to the caller. When the controller's send raises, the
  exception is logged and not raised. In both cases the entity keeps what the operation
  wrote before the dispatch (the speed, the oscillation flag, the direction), \<open>on_by_remote\<close>
  is cleared, nothing else changes and the send is not repeated.
\<close>

theorem dispatch_failure_semantics:
  "(resolve_command dev s = Inl e \<longrightarrow>
      send_command dev s = (Some e, s\<lparr>on_by_remote := False\<rparr>))
   \<and> (resolve_command dev s = Inr c \<and> controller dev (sent s) c = Some e \<longrightarrow>
      send_command dev s
        = (None, s\<lparr>on_by_remote := False, sent := sent s @ [c], logged := logged s @ [e]\<rparr>))
   \<and> speed (snd (async_set_percentage dev 0 s)) = Some SPEED_OFF
   \<and> (p \<noteq> 0 \<and> percentage_to_ordered_list_item (speed_list dev) p = Inr level \<longrightarrow>
      speed (snd (async_set_percentage dev p s)) = Some level)
   \<and> oscillating (snd (async_oscillate dev b s)) = Some b
   \<and> direction (snd (async_set_direction dev d s)) = Some d"
proof (intro conjI impI)
  show "speed (snd (async_set_percentage dev 0 s)) = Some SPEED_OFF"
    by (simp add: async_set_percentage_def)
  show "oscillating (snd (async_oscillate dev b s)) = Some b"
    by (simp add: async_oscillate_def)
  show "direction (snd (async_set_direction dev d s)) = Some d"
    by (simp add: async_set_direction_def async_write_ha_state_def Let_def)
qed (simp_all add: send_command_unresolved send_command_transport_failure
       speed_async_set_percentage)

theorem dispatch_failure_semantics_witness:
  "send_command ceiling_fan remote_on = (Some KeyError, remote_on\<lparr>on_by_remote := False\<rparr>)
   \<and> send_command deaf_controller (init deaf_controller)
       = (None, (init deaf_controller)\<lparr>sent := [JStr ''OFF''], logged := [TransportError]\<rparr>)
   \<and> speed (snd (async_set_percentage deaf_controller 50 (init deaf_controller)))
       = Some ''medium''"
  using dispatch_failure_semantics [where dev = ceiling_fan and s = remote_on and e = KeyError]
    dispatch_failure_semantics [where dev = deaf_controller and s = "init deaf_controller"
      and c = "JStr ''OFF''" and e = TransportError and p = 50 and level = "''medium''"]
  by (simp add: remote_on_def deaf_controller_def ceiling_fan_def init_def Let_def sensor_on_def
        async_power_sensor_changed_def async_write_ha_state_def resolve_command_def
        getitem_def by_speed_reverse_def percentage_to_ordered_list_item_def)

section \<open>The remote flag and known levels\<close>

lemma async_set_percentage_remote:
  "(on_by_remote s \<longrightarrow> speed s = None) \<Longrightarrow>
   (on_by_remote (snd (async_set_percentage dev p s)) \<longrightarrow>
      speed (snd (async_set_percentage dev p s)) = None)"
  by (simp add: async_set_percentage_def Let_def split: sum.splits)

lemma async_turn_on_remote:
  "(on_by_remote s \<longrightarrow> speed s = None) \<Longrightarrow>
   (on_by_remote (snd (async_turn_on dev p s)) \<longrightarrow>
      speed (snd (async_turn_on dev p s)) = None)"
  using async_set_percentage_remote [of s dev]
  by (simp add: async_turn_on_def split: option.splits sum.splits list.splits)

lemma async_set_direction_remote:
  "(on_by_remote s \<longrightarrow> speed s = None) \<Longrightarrow>
   (on_by_remote (snd (async_set_direction dev d s)) \<longrightarrow>
      speed (snd (async_set_direction dev d s)) = None)"
  by (auto simp add: async_set_direction_def async_write_ha_state_def Let_def)

lemma async_power_sensor_changed_remote:
  "(on_by_remote s \<longrightarrow> speed s = None) \<Longrightarrow>
   (on_by_remote (snd (async_power_sensor_changed ev s)) \<longrightarrow>
      speed (snd (async_power_sensor_changed ev s)) = None)"
  by (auto simp add: async_power_sensor_changed_def async_write_ha_state_def Let_def
        split: option.splits)

lemma perform_remote:
  "(on_by_remote s \<longrightarrow> speed s = None) \<Longrightarrow>
   (on_by_remote (snd (perform dev x s)) \<longrightarrow> speed (snd (perform dev x s)) = None)"
proof (cases x)
  case (SetPercentage p)
  assume "on_by_remote s \<longrightarrow> speed s = None"
  then show ?thesis using SetPercentage async_set_percentage_remote by simp
next
  case (Oscillate b)
  then show ?thesis by (simp add: async_oscillate_def)
next
  case (SetDirection d)
  assume "on_by_remote s \<longrightarrow> speed s = None"
  then show ?thesis using SetDirection async_set_direction_remote by simp
next
  case (TurnOn p)
  assume "on_by_remote s \<longrightarrow> speed s = None"
  then show ?thesis using TurnOn async_turn_on_remote by simp
next
  case TurnOff
  assume "on_by_remote s \<longrightarrow> speed s = None"
  then show ?thesis using TurnOff async_set_percentage_remote by (simp add: async_turn_off_def)
next
  case (PowerSensorChanged ev)
  assume "on_by_remote s \<longrightarrow> speed s = None"
  then show ?thesis using PowerSensorChanged async_power_sensor_changed_remote by simp
qed

lemma run_remote:
  "(on_by_remote s \<longrightarrow> speed s = None) \<Longrightarrow>
   (on_by_remote (run dev xs s) \<longrightarrow> speed (run dev xs s) = None)"
proof (induction xs arbitrary: s)
  case Nil
  then show ?case by simp
next
  case (Cons x xs)
  from Cons.prems have "on_by_remote (snd (perform dev x s)) \<longrightarrow>
      speed (snd (perform dev x s)) = None"
    by (rule perform_remote)
  then show ?case using Cons.IH by simp
qed

lemma on_by_remote_added_to_hass:
  "on_by_remote (async_added_to_hass dev last_state s) = on_by_remote s"
  by (simp add: async_added_to_hass_def Let_def split: option.splits list.splits)

lemma started_remote:
  "\<not> on_by_remote (async_added_to_hass dev last_state (init dev))"
  by (simp add: on_by_remote_added_to_hass) (simp add: init_def Let_def)

lemma indeterminate_kept:
  assumes "speed s = None"
  shows "speed (snd (async_oscillate dev b s)) = None"
    and "speed (snd (async_set_direction dev d s)) = None"
    and "new_state ev \<noteq> Some STATE_OFF \<Longrightarrow> speed (snd (async_power_sensor_changed ev s)) = None"
  using assms
  by (simp_all add: async_oscillate_def async_set_direction_def
        async_power_sensor_changed_def Let_def split: option.splits)

lemma sensor_on_indeterminate:
  assumes "speed s = Some SPEED_OFF" and "old_state ev = Some before"
    and "new_state ev = Some STATE_ON" and "before \<noteq> STATE_ON"
  shows "on_by_remote (snd (async_power_sensor_changed ev s))"
    and "speed (snd (async_power_sensor_changed ev s)) = None"
  using assms
  by (simp_all add: async_power_sensor_changed_def async_write_ha_state_def Let_def)

lemma set_percentage_concrete:
  assumes "p \<noteq> 0" and "percentage_to_ordered_list_item (speed_list dev) p = Inr level"
  shows "speed (snd (async_set_percentage dev p s)) = Some level"
    and "\<not> on_by_remote (snd (async_set_percentage dev p s))"
  using assms by (simp_all add: async_set_percentage_def Let_def)

text \<open>
  Claim C8. After startup (\<open>__init__\<close>, then \<open>async_added_to_hass\<close> with any restored
  state or none) and any sequence of operations (user commands and power-sensor
  notifications, whether they raise or not), \<open>on_by_remote\<close> never holds together with a
  speed that is a known level other than off: whenever \<open>on_by_remote\<close> holds, the speed is
  \<open>None\<close>. A power-sensor change to ON while the speed is off sets \<open>on_by_remote\<close> and
  leaves the speed \<open>None\<close>; the speed stays \<open>None\<close> through \<open>async_oscillate\<close>,
  \<open>async_set_direction\<close> and every notification whose new state is not OFF, until
  \<open>async_set_percentage\<close> sets a level of the speed list, which also clears \<open>on_by_remote\<close>.
\<close>

theorem remote_on_has_no_level:
  "\<not> (on_by_remote (run dev ops (async_added_to_hass dev last_state (init dev)))
        \<and> (\<exists>level. speed (run dev ops (async_added_to_hass dev last_state (init dev)))
                      = Some level \<and> level \<noteq> SPEED_OFF))
   \<and> (on_by_remote (run dev ops (async_added_to_hass dev last_state (init dev))) \<longrightarrow>
        speed (run dev ops (async_added_to_hass dev last_state (init dev))) = None)
   \<and> (speed s = Some SPEED_OFF \<and> old_state ev = Some before \<and> new_state ev = Some STATE_ON
        \<and> before \<noteq> STATE_ON \<longrightarrow>
        on_by_remote (snd (async_power_sensor_changed ev s))
        \<and> speed (snd (async_power_sensor_changed ev s)) = None)
   \<and> (speed s = None \<longrightarrow>
        speed (snd (async_oscillate dev b s)) = None
        \<and> speed (snd (async_set_direction dev d s)) = None
        \<and> (new_state ev \<noteq> Some STATE_OFF \<longrightarrow>
             speed (snd (async_power_sensor_changed ev s)) = None))
   \<and> (p \<noteq> 0 \<and> percentage_to_ordered_list_item (speed_list dev) p = Inr level' \<longrightarrow>
        speed (snd (async_set_percentage dev p s)) = Some level'
        \<and> \<not> on_by_remote (snd (async_set_percentage dev p s)))"
proof -
  let ?s = "run dev ops (async_added_to_hass dev last_state (init dev))"
  have inv: "on_by_remote ?s \<longrightarrow> speed ?s = None"
    using started_remote by (intro run_remote) simp
  then have "\<not> (on_by_remote ?s \<and> (\<exists>level. speed ?s = Some level \<and> level \<noteq> SPEED_OFF))"
    by auto
  moreover have "speed s = Some SPEED_OFF \<and> old_state ev = Some before
        \<and> new_state ev = Some STATE_ON \<and> before \<noteq> STATE_ON \<longrightarrow>
      on_by_remote (snd (async_power_sensor_changed ev s))
      \<and> speed (snd (async_power_sensor_changed ev s)) = None"
    using sensor_on_indeterminate by blast
  moreover have "speed s = None \<longrightarrow>
      speed (snd (async_oscillate dev b s)) = None
      \<and> speed (snd (async_set_direction dev d s)) = None
      \<and> (new_state ev \<noteq> Some STATE_OFF \<longrightarrow>
           speed (snd (async_power_sensor_changed ev s)) = None)"
    by (simp add: indeterminate_kept)
  moreover have "p \<noteq> 0 \<and> percentage_to_ordered_list_item (speed_list dev) p = Inr level' \<longrightarrow>
      speed (snd (async_set_percentage dev p s)) = Some level'
      \<and> \<not> on_by_remote (snd (async_set_percentage dev p s))"
    by (simp add: set_percentage_concrete)
  ultimately show ?thesis using inv by (intro conjI)
qed

theorem remote_on_has_no_level_witness:
  "on_by_remote (run ceiling_fan [TurnOn None, TurnOff, PowerSensorChanged sensor_on]
      (async_added_to_hass ceiling_fan None (init ceiling_fan)))
   \<and> speed (run ceiling_fan [TurnOn None, TurnOff, PowerSensorChanged sensor_on]
      (async_added_to_hass ceiling_fan None (init ceiling_fan))) = None
   \<and> on_by_remote (snd (async_power_sensor_changed sensor_on (init ceiling_fan)))
   \<and> speed (snd (async_oscillate ceiling_fan True remote_on)) = None
   \<and> speed (snd (async_set_direction ceiling_fan ''forward'' remote_on)) = None
   \<and> speed (snd (async_power_sensor_changed sensor_on remote_on)) = None
   \<and> speed (snd (async_set_percentage ceiling_fan 50 remote_on)) = Some ''medium''
   \<and> \<not> on_by_remote (snd (async_set_percentage ceiling_fan 50 remote_on))"
proof -
  have on: "on_by_remote (run ceiling_fan [TurnOn None, TurnOff, PowerSensorChanged sensor_on]
      (async_added_to_hass ceiling_fan None (init ceiling_fan)))"
    by (simp add: async_added_to_hass_def async_turn_on_def async_turn_off_def
          async_set_percentage_def async_power_sensor_changed_def
          async_write_ha_state_def sensor_on_def Let_def
          ordered_list_item_to_percentage_def percentage_to_ordered_list_item_def
          ceiling_fan_def split: list.splits)
  have none: "speed remote_on = None"
    by (simp add: remote_on_def async_power_sensor_changed_def async_write_ha_state_def
          sensor_on_def init_def Let_def)
  have mid: "percentage_to_ordered_list_item (speed_list ceiling_fan) 50 = Inr ''medium''"
    by (simp add: ceiling_fan_def percentage_to_ordered_list_item_def)
  show ?thesis
    using on none mid
      remote_on_has_no_level [where dev = ceiling_fan and last_state = None
        and ops = "[TurnOn None, TurnOff, PowerSensorChanged sensor_on]"
        and s = "init ceiling_fan" and ev = sensor_on and before = STATE_OFF]
      remote_on_has_no_level [where dev = ceiling_fan and s = remote_on and ev = sensor_on
        and b = True and d = "''forward''" and p = 50 and level' = "''medium''"]
    by (simp add: sensor_on_def init_def Let_def)
qed

section \<open>Startup and the first notification\<close>

text \<open>
  Claim C9 asks that a device configured with a power sensor is subscribed to the
  sensor's state changes at startup. \<open>async_added_to_hass\<close> makes the subscription inside
  the branch for a restored state: without one it changes nothing, so the ceiling fan,
  whose power sensor is configured, tracks no entity; with a restored state, even one
  with no attributes, it tracks the sensor.
\<close>

theorem power_sensor_untracked_without_last_state:
  "async_added_to_hass dev None s = s
   \<and> power_sensor ceiling_fan = Some ''binary_sensor.fan_power''
   \<and> tracked (async_added_to_hass ceiling_fan None (init ceiling_fan)) = []
   \<and> tracked (async_added_to_hass ceiling_fan (Some Map.empty) (init ceiling_fan))
       = [''binary_sensor.fan_power'']"
  by (simp add: async_added_to_hass_def ceiling_fan_def init_def Let_def)

text \<open>
  Claim C10 asks that a notification whose new state is present never raises while the
  handler decides whether to ignore it. The handler reads \<open>old_state.state\<close> without
  testing \<open>old_state\<close>: on the first notification of a sensor, whose old state is \<open>None\<close>,
  it raises AttributeError and leaves the entity unchanged, whatever the new state is.
\<close>

theorem power_sensor_first_notification_raises:
  "async_power_sensor_changed \<lparr>entity_id = e, old_state = None, new_state = Some v\<rparr> s
     = (Some AttributeError, s)
   \<and> async_power_sensor_changed sensor_first (init ceiling_fan)
     = (Some AttributeError, init ceiling_fan)"
  by (simp add: async_power_sensor_changed_def sensor_first_def)

end
